theory Spec2Isabelle
  imports Main "HOL-Library.Sublist"
begin

section \<open>The emitted fragment \<^verbatim>\<open>guild/automod/sidebar-items.js\<close>\<close>

text \<open>
  The repository's source is one generated JavaScript file holding one statement,
  \<^verbatim>\<open>window.SIDEBAR_ITEMS = { ... };\<close>. Its right-hand side is an object literal whose
  values are arrays of two-element arrays of string literals. The values of JavaScript
  that occur are modelled by a small syntax tree; an object keeps its properties as an
  association list in source order (string keys that are not array indices are
  enumerated in insertion order).
\<close>

datatype js_value =
    JString string
  | JArray "js_value list"
  | JObject "(string \<times> js_value) list"

text \<open>\<^verbatim>\<open>obj.prop = value;\<close>\<close>

datatype js_stmt = AssignMember string string js_value

definition SIDEBAR_ITEMS :: js_value where
  \<open>SIDEBAR_ITEMS = JObject [
     (''enum'', JArray [
        JArray [JString ''Action'',
                JString ''An action which will execute whenever a rule is triggered.''],
        JArray [JString ''ActionType'',
                JString ''Type of [`Action`].''],
        JArray [JString ''EventType'',
                JString ''Indicates in what event context a rule should be checked.''],
        JArray [JString ''KeywordPresetType'',
                JString ''Internally pre-defined wordsets which will be searched for in content.''],
        JArray [JString ''Trigger'',
                JString ''Characterizes the type of content which can trigger the rule.''],
        JArray [JString ''TriggerType'',
                JString ''Type of [`Trigger`].'']]),
     (''struct'', JArray [
        JArray [JString ''ActionExecution'',
                JString ''Gateway event payload sent when a rule is triggered and an action is executed (e.g. message is blocked).''],
        JArray [JString ''Rule'',
                JString ''Configured auto moderation rule.''],
        JArray [JString ''TriggerMetadata'',
                JString ''Individual change for trigger metadata within an audit log entry.'']])]\<close>

text \<open>The file is this one statement.\<close>

definition sidebar_items_js :: "js_stmt list" where
  "sidebar_items_js = [AssignMember ''window'' ''SIDEBAR_ITEMS'' SIDEBAR_ITEMS]"

text \<open>The file's 697 bytes, as they are (the file has no final newline).\<close>

definition sidebar_items_text :: string where
  \<open>sidebar_items_text = ''window.SIDEBAR_ITEMS = {"enum":[["Action","An action which will execute whenever a rule is triggered."],["ActionType","Type of [`Action`]."],["EventType","Indicates in what event context a rule should be checked."],["KeywordPresetType","Internally pre-defined wordsets which will be searched for in content."],["Trigger","Characterizes the type of content which can trigger the rule."],["TriggerType","Type of [`Trigger`]."]],"struct":[["ActionExecution","Gateway event payload sent when a rule is triggered and an action is executed (e.g. message is blocked)."],["Rule","Configured auto moderation rule."],["TriggerMetadata","Individual change for trigger metadata within an audit log entry."]]};''\<close>


subsection \<open>Serialization\<close>

text \<open>
  How the generator writes a value: compact JSON, no white space between tokens. A
  string that would need an escape sequence (a double quote, a backslash, a control
  character) is outside what the fragment uses; the writer gives \<open>None\<close> for it
  rather than inventing an escape.
\<close>

definition needs_escape :: "char \<Rightarrow> bool" where
  "needs_escape c = (c = CHR 0x22 \<or> c = CHR 0x5C \<or> (of_char c :: nat) < 32)"

definition emit_string :: "string \<Rightarrow> string option" where
  "emit_string s =
     (if list_ex needs_escape s then None else Some ([CHR 0x22] @ s @ [CHR 0x22]))"

fun join_comma :: "string list \<Rightarrow> string" where
  "join_comma [] = []"
| "join_comma [x] = x"
| "join_comma (x # y # ys) = x @ '','' @ join_comma (y # ys)"

fun emit_value :: "js_value \<Rightarrow> string option" where
  "emit_value (JString s) = emit_string s"
| "emit_value (JArray xs) =
     map_option (\<lambda>ps. ''['' @ join_comma ps @ '']'') (those (map emit_value xs))"
| "emit_value (JObject kvs) =
     map_option (\<lambda>ps. ''{'' @ join_comma ps @ ''}'')
       (those (map (\<lambda>(k, v).
          case emit_string k of
            None \<Rightarrow> None
          | Some a \<Rightarrow> map_option (\<lambda>b. a @ '':'' @ b) (emit_value v)) kvs))"

fun emit_stmt :: "js_stmt \<Rightarrow> string option" where
  "emit_stmt (AssignMember obj prop v) =
     map_option (\<lambda>t. obj @ ''.'' @ prop @ '' = '' @ t @ '';'') (emit_value v)"

definition emit_program :: "js_stmt list \<Rightarrow> string option" where
  "emit_program ss = map_option concat (those (map emit_stmt ss))"


subsection \<open>The payload a consumer reads\<close>

text \<open>
  A consumer reads \<^verbatim>\<open>SIDEBAR_ITEMS[kind]\<close> and, of every element, \<^verbatim>\<open>item[0]\<close> (the
  name) and \<^verbatim>\<open>item[1]\<close> (the summary). Decoding fails on any value of another shape.
\<close>

type_synonym item = "string \<times> string"
type_synonym payload = "(string \<times> item list) list"

fun decode_item :: "js_value \<Rightarrow> item option" where
  "decode_item (JArray [JString n, JString s]) = Some (n, s)"
| "decode_item _ = None"

fun decode_bucket :: "js_value \<Rightarrow> item list option" where
  "decode_bucket (JArray xs) = those (map decode_item xs)"
| "decode_bucket _ = None"

fun decode_payload :: "js_value \<Rightarrow> payload option" where
  "decode_payload (JObject kvs) =
     (if distinct (map fst kvs)
      then those (map (\<lambda>(k, v). map_option (Pair k) (decode_bucket v)) kvs)
      else None)"
| "decode_payload _ = None"

text \<open>
  The abstract payload written back as a value: what a producer of the wire shape
  builds before serializing it.
\<close>

definition encode_item :: "item \<Rightarrow> js_value" where
  "encode_item i = JArray [JString (fst i), JString (snd i)]"

definition encode_payload :: "payload \<Rightarrow> js_value" where
  "encode_payload p = JObject (map (\<lambda>(k, items). (k, JArray (map encode_item items))) p)"

text \<open>
  A global of the page is a property of \<^verbatim>\<open>window\<close>. A fragment is read as the name of
  the one global it assigns and the payload assigned to it; a file of any other form
  is not a fragment.
\<close>

fun decode_fragment :: "js_stmt list \<Rightarrow> (string \<times> payload) option" where
  "decode_fragment [AssignMember obj prop v] =
     (if obj = ''window'' then map_option (Pair prop) (decode_payload v) else None)"
| "decode_fragment _ = None"

text \<open>\<^verbatim>\<open>window.SIDEBAR_ITEMS\<close> as a consumer has it once the fragment is loaded.\<close>

definition fragment_payload :: "payload option" where
  "fragment_payload = map_option snd (decode_fragment sidebar_items_js)"

text \<open>The payload that the fragment decodes to, written out (\<open>fragment_payload_eq\<close>).\<close>

definition sidebar_payload :: payload where
  \<open>sidebar_payload =
    [(''enum'',
      [(''Action'', ''An action which will execute whenever a rule is triggered.''),
       (''ActionType'', ''Type of [`Action`].''),
       (''EventType'', ''Indicates in what event context a rule should be checked.''),
       (''KeywordPresetType'',
        ''Internally pre-defined wordsets which will be searched for in content.''),
       (''Trigger'', ''Characterizes the type of content which can trigger the rule.''),
       (''TriggerType'', ''Type of [`Trigger`].'')]),
     (''struct'',
      [(''ActionExecution'',
        ''Gateway event payload sent when a rule is triggered and an action is executed (e.g. message is blocked).''),
       (''Rule'', ''Configured auto moderation rule.''),
       (''TriggerMetadata'',
        ''Individual change for trigger metadata within an audit log entry.'')])]\<close>

text \<open>\<^verbatim>\<open>payload[kind]\<close>, names only; \<open>None\<close> where JavaScript gives \<^verbatim>\<open>undefined\<close>.\<close>

definition bucket_names :: "payload \<Rightarrow> string \<Rightarrow> string list option" where
  "bucket_names p k = map_option (map fst) (map_of p k)"

definition all_names :: "payload \<Rightarrow> string list" where
  "all_names p = concat (map (\<lambda>(k, items). map fst items) p)"


subsection \<open>Orders on names\<close>

text \<open>
  Strings compare as JavaScript's \<^verbatim>\<open><\<close> compares them: code unit by code unit, a
  proper prefix first. Every character of the fragment is ASCII, where lower-casing
  moves \<^verbatim>\<open>A\<close> to \<^verbatim>\<open>Z\<close> only.
\<close>

definition lower_char :: "char \<Rightarrow> char" where
  "lower_char c =
     (let n = (of_char c :: nat) in if 65 \<le> n \<and> n \<le> 90 then char_of (n + 32) else c)"

definition lower :: "string \<Rightarrow> string" where
  "lower s = map lower_char s"

fun string_less :: "string \<Rightarrow> string \<Rightarrow> bool" where
  "string_less [] [] = False"
| "string_less [] (y # ys) = True"
| "string_less (x # xs) [] = False"
| "string_less (x # xs) (y # ys) =
     ((of_char x :: nat) < of_char y \<or> (x = y \<and> string_less xs ys))"

definition string_le :: "string \<Rightarrow> string \<Rightarrow> bool" where
  "string_le a b = (string_less a b \<or> a = b)"

text \<open>Case-insensitive first, the case-sensitive order between names equal up to case.\<close>

definition name_le :: "string \<Rightarrow> string \<Rightarrow> bool" where
  "name_le a b =
     (string_less (lower a) (lower b) \<or> (lower a = lower b \<and> string_le a b))"

fun precedes :: "'a \<Rightarrow> 'a \<Rightarrow> 'a list \<Rightarrow> bool" where
  "precedes a b [] = False"
| "precedes a b (x # xs) = ((x = a \<and> b \<in> set xs) \<or> precedes a b xs)"

definition is_line_break :: "char \<Rightarrow> bool" where
  "is_line_break c = (c = CHR 0x0A \<or> c = CHR 0x0D)"

definition single_line :: "string \<Rightarrow> bool" where
  "single_line s = (\<not> list_ex is_line_break s)"


subsection \<open>The kinds\<close>

text \<open>
  Modelled from the spec: the declaration of the closed set \<open>Kind\<close> is not part of the
  fragment, whose keys are plain strings. These are the categories the data model
  names: enum, struct, trait/interface, function, macro, type-alias, constant.
\<close>

definition declared_kinds :: "string list" where
  "declared_kinds =
     [''enum'', ''struct'', ''trait'', ''function'', ''macro'', ''type-alias'', ''constant'']"


subsection \<open>Prefix search\<close>

text \<open>
  The search index and its \<open>lookupPrefix\<close> are not part of the fragment; the
  definitions of this subsection follow the specification of the search index.
\<close>

text \<open>
  Modelled from the spec: the item record of the search index, which is not part of
  the fragment. An entry is an item with its kind.
\<close>

record ItemRecord =
  name :: string
  kind :: string
  summary :: string

definition entries_of :: "payload \<Rightarrow> ItemRecord list" where
  "entries_of p =
     concat (map (\<lambda>(k, items).
       map (\<lambda>(n, s). \<lparr>name = n, kind = k, summary = s\<rparr>) items) p)"

text \<open>
  Modelled from the spec: the match of \<open>lookupPrefix\<close>, which is not part of the
  fragment. The name, compared case-insensitively, starts with the query.
\<close>

definition starts_with_ci :: "string \<Rightarrow> string \<Rightarrow> bool" where
  "starts_with_ci q n = (take (length q) (lower n) = lower q)"

text \<open>
  Modelled from the spec: the per-kind priority of the ranking, which is not part of
  the fragment: struct/trait-like, then function, constant, macro, other (a smaller
  number is a higher priority). The ranking below takes the priority as a parameter
  \<open>prio\<close>, of which this is one value.
\<close>

definition kind_priority :: "string \<Rightarrow> nat" where
  "kind_priority k =
     (if k = ''struct'' \<or> k = ''trait'' then 0
      else if k = ''function'' then 1
      else if k = ''constant'' then 2
      else if k = ''macro'' then 3
      else 4)"

text \<open>
  Modelled from the spec: the ranking policy of the search index, which is not part of
  the fragment. An exact case-insensitive match of the query first, then the shorter
  name, then the kind of higher priority, then the lexical order of names.
\<close>

definition rank_le ::
  "(string \<Rightarrow> nat) \<Rightarrow> string \<Rightarrow> ItemRecord \<Rightarrow> ItemRecord \<Rightarrow> bool" where
  "rank_le prio q a b =
     (let ea = (lower (name a) = lower q); eb = (lower (name b) = lower q) in
      if ea = eb then
        if length (name a) = length (name b) then
          if prio (kind a) = prio (kind b) then string_le (name a) (name b)
          else prio (kind a) < prio (kind b)
        else length (name a) < length (name b)
      else ea)"

text \<open>Insertion sort by a ranking; entries of equal rank keep their order.\<close>

fun insert_ranked :: "('a \<Rightarrow> 'a \<Rightarrow> bool) \<Rightarrow> 'a \<Rightarrow> 'a list \<Rightarrow> 'a list" where
  "insert_ranked le x [] = [x]"
| "insert_ranked le x (y # ys) =
     (if le x y then x # y # ys else y # insert_ranked le x ys)"

definition sort_ranked :: "('a \<Rightarrow> 'a \<Rightarrow> bool) \<Rightarrow> 'a list \<Rightarrow> 'a list" where
  "sort_ranked le xs = foldr (insert_ranked le) xs []"

text \<open>
  Modelled from the spec: \<open>lookupPrefix\<close> of the search index, which is not part of the
  fragment. The entries whose name starts with the query, ranked; the empty query
  returns nothing.
\<close>

definition lookupPrefix ::
  "(string \<Rightarrow> nat) \<Rightarrow> ItemRecord list \<Rightarrow> string \<Rightarrow> ItemRecord list" where
  "lookupPrefix prio es q =
     (if q = [] then []
      else sort_ranked (rank_le prio q) (filter (\<lambda>e. starts_with_ci q (name e)) es))"


section \<open>Properties of the model\<close>

subsection \<open>The orders are linear\<close>

lemma string_less_irrefl: "\<not> string_less a a"
  by (induction a) auto

lemma string_less_trans: "string_less a b \<Longrightarrow> string_less b c \<Longrightarrow> string_less a c"
proof (induction a b arbitrary: c rule: string_less.induct)
  case (2 y ys)
  then show ?case by (cases c) auto
next
  case (4 x xs y ys)
  then show ?case by (cases c) auto
qed auto

lemma string_less_total: "string_less a b \<or> a = b \<or> string_less b a"
proof (induction a b rule: string_less.induct)
  case (4 x xs y ys)
  have "(of_char x :: nat) < of_char y \<or> x = y \<or> (of_char y :: nat) < of_char x"
    using of_char_eq_iff [of x y, where ?'a = nat] by linarith
  with 4 show ?case by auto
qed auto

lemma string_less_asym: "string_less a b \<Longrightarrow> \<not> string_less b a"
  using string_less_trans string_less_irrefl by blast

lemma name_le_refl: "name_le a a"
  by (simp add: name_le_def string_le_def)

lemma name_le_total: "name_le a b \<or> name_le b a"
  using string_less_total [of "lower a" "lower b"] string_less_total [of a b]
  by (auto simp: name_le_def string_le_def)

lemma name_le_trans: "name_le a b \<Longrightarrow> name_le b c \<Longrightarrow> name_le a c"
  unfolding name_le_def string_le_def
  using string_less_trans by metis

lemma name_le_antisym: "name_le a b \<Longrightarrow> name_le b a \<Longrightarrow> a = b"
  unfolding name_le_def string_le_def
  using string_less_asym string_less_irrefl by metis

subsection \<open>The wire shape and the abstract payload determine each other\<close>

lemma decode_encode_item: "decode_item (encode_item i) = Some i"
  by (simp add: encode_item_def)

lemma decode_encode_items: "those (map (decode_item \<circ> encode_item) items) = Some items"
  by (induction items) (auto simp: decode_encode_item)

lemma decode_encode_payload:
  "decode_payload (encode_payload p) = (if distinct (map fst p) then Some p else None)"
proof -
  have keys: "map fst (map (\<lambda>(k, items). (k, JArray (map encode_item items))) p) = map fst p"
    by (induction p) auto
  have vals: "those (map (\<lambda>(k, v). map_option (Pair k) (decode_bucket v))
          (map (\<lambda>(k, items). (k, JArray (map encode_item items))) p)) = Some p"
    by (induction p) (auto simp: decode_encode_items)
  show ?thesis
    unfolding encode_payload_def decode_payload.simps keys vals ..
qed

lemma encode_decode_item: "decode_item v = Some i \<Longrightarrow> encode_item i = v"
  by (induction v rule: decode_item.induct) (auto simp: encode_item_def)

lemma encode_decode_bucket: "those (map decode_item xs) = Some items \<Longrightarrow> map encode_item items = xs"
  by (induction xs arbitrary: items) (auto split: option.splits dest: encode_decode_item)

lemma encode_decode_payload: "decode_payload v = Some p \<Longrightarrow> encode_payload p = v"
proof (cases v)
  case (JObject kvs)
  assume d: "decode_payload v = Some p"
  have "those (map (\<lambda>(k, v). map_option (Pair k) (decode_bucket v)) kvs) = Some p \<Longrightarrow>
        map (\<lambda>(k, items). (k, JArray (map encode_item items))) p = kvs"
  proof (induction kvs arbitrary: p)
    case (Cons kv kvs)
    obtain k b where kv: "kv = (k, b)" by (cases kv)
    from Cons.prems kv obtain items ps where
      b: "decode_bucket b = Some items" and ps: "those (map (\<lambda>(k, v). map_option (Pair k) (decode_bucket v)) kvs) = Some ps"
      and p: "p = (k, items) # ps"
      by (auto split: option.splits)
    from b have "JArray (map encode_item items) = b"
      by (cases b) (auto dest: encode_decode_bucket)
    with Cons.IH [OF ps] kv p show ?case by simp
  qed simp
  with d JObject show ?thesis by (simp add: encode_payload_def split: if_splits)
qed simp_all

subsection \<open>Prefix search returns the matches, ranked\<close>

lemma insert_ranked_set: "set (insert_ranked le x xs) = insert x (set xs)"
  by (induction xs) auto

lemma insert_ranked_length: "length (insert_ranked le x xs) = Suc (length xs)"
  by (induction xs) auto

lemma sort_ranked_set: "set (sort_ranked le xs) = set xs"
  by (induction xs) (auto simp: sort_ranked_def insert_ranked_set)

lemma sort_ranked_length: "length (sort_ranked le xs) = length xs"
  by (induction xs) (auto simp: sort_ranked_def insert_ranked_length)

lemma lookupPrefix_empty_query: "lookupPrefix prio es [] = []"
  by (simp add: lookupPrefix_def)

lemma lookupPrefix_only_matches:
  "e \<in> set (lookupPrefix prio es q) \<Longrightarrow> e \<in> set es \<and> starts_with_ci q (name e)"
  by (auto simp: lookupPrefix_def sort_ranked_set split: if_splits)

lemma lookupPrefix_all_matches:
  "q \<noteq> [] \<Longrightarrow> e \<in> set es \<Longrightarrow> starts_with_ci q (name e) \<Longrightarrow> e \<in> set (lookupPrefix prio es q)"
  by (auto simp: lookupPrefix_def sort_ranked_set split: if_splits)

lemma rank_le_total: "rank_le prio q a b \<or> rank_le prio q b a"
  using string_less_total [of "name a" "name b"]
  by (auto simp: rank_le_def Let_def string_le_def)

lemma rank_le_trans: "rank_le prio q a b \<Longrightarrow> rank_le prio q b c \<Longrightarrow> rank_le prio q a c"
  unfolding rank_le_def Let_def string_le_def
  using string_less_trans [of "name a" "name b" "name c"]
  by (auto split: if_splits)

lemma insert_ranked_sorted:
  assumes tot: "\<And>a b. le a b \<or> le b a" and tr: "\<And>a b c. le a b \<Longrightarrow> le b c \<Longrightarrow> le a c"
  shows "sorted_wrt le xs \<Longrightarrow> sorted_wrt le (insert_ranked le x xs)"
proof (induction xs)
  case (Cons y ys)
  show ?case
  proof (cases "le x y")
    case True
    with Cons.prems tr show ?thesis by auto
  next
    case False
    with tot have "le y x" by blast
    with Cons False show ?thesis by (auto simp: insert_ranked_set)
  qed
qed simp

lemma sort_ranked_sorted:
  assumes tot: "\<And>a b. le a b \<or> le b a" and tr: "\<And>a b c. le a b \<Longrightarrow> le b c \<Longrightarrow> le a c"
  shows "sorted_wrt le (sort_ranked le xs)"
proof (induction xs)
  case (Cons x xs)
  then show ?case
    using insert_ranked_sorted [of le "sort_ranked le xs" x, OF tot tr]
    by (simp add: sort_ranked_def)
qed (simp add: sort_ranked_def)

lemma lookupPrefix_ranked: "sorted_wrt (rank_le prio q) (lookupPrefix prio es q)"
  using sort_ranked_sorted [of "rank_le prio q", OF rank_le_total rank_le_trans]
  by (simp add: lookupPrefix_def)


section \<open>The fragment's data, evaluated\<close>

lemma fragment_payload_eq: "fragment_payload = Some sidebar_payload"
  by code_simp

lemma bucket_names_enum:
  "bucket_names sidebar_payload ''enum'' =
     Some [''Action'', ''ActionType'', ''EventType'', ''KeywordPresetType'',
           ''Trigger'', ''TriggerType'']"
  by code_simp

lemma bucket_names_struct:
  "bucket_names sidebar_payload ''struct'' =
     Some [''ActionExecution'', ''Rule'', ''TriggerMetadata'']"
  by code_simp


section \<open>Properties of the fragment\<close>

text \<open>
  C1. In every kind bucket of the fragment's payload (the enum bucket and the struct
  bucket) the sequence of item names is sorted case-insensitively, names equal up to
  case in case-sensitive order: every name is \<open>name_le\<close> every later name of its bucket.
\<close>

theorem C1_buckets_sorted:
  "\<exists>p. fragment_payload = Some p \<and>
       list_all (\<lambda>(k, items). sorted_wrt name_le (map fst items)) p"
proof (intro exI conjI)
  show "fragment_payload = Some sidebar_payload"
    by (fact fragment_payload_eq)
  show "list_all (\<lambda>(k, items). sorted_wrt name_le (map fst items)) sidebar_payload"
    by code_simp
qed

text \<open>
  C2. The fragment is the serialized wire shape: the file is one assignment to the
  global \<^verbatim>\<open>SIDEBAR_ITEMS\<close>, its value decodes as a mapping from kind strings to arrays
  of (name, summary) pairs of two strings each, encoding that payload gives the value
  back, and writing the statement out gives the file byte for byte.
\<close>

theorem C2_wire_shape:
  "\<exists>p. decode_fragment sidebar_items_js = Some (''SIDEBAR_ITEMS'', p) \<and>
       encode_payload p = SIDEBAR_ITEMS \<and>
       emit_program sidebar_items_js = Some sidebar_items_text"
proof (intro exI conjI)
  show "decode_fragment sidebar_items_js = Some (''SIDEBAR_ITEMS'', sidebar_payload)"
    by code_simp
  show "encode_payload sidebar_payload = SIDEBAR_ITEMS"
    by code_simp
  show "emit_program sidebar_items_js = Some sidebar_items_text"
    by code_simp
qed

text \<open>
  C3. The entries of the fragment whose names start with \<^verbatim>\<open>Trigger\<close>, compared
  case-insensitively, are Trigger (enum), TriggerType (enum) and TriggerMetadata
  (struct). The ranking of \<open>lookupPrefix\<close> returns Trigger first, then TriggerType,
  then TriggerMetadata, whatever the priority of the kinds (in particular under
  \<open>kind_priority\<close>), and in whatever order the index holds the entries (here: the
  fragment's order and its reverse).
\<close>

theorem C3_lookup_Trigger:
  "\<exists>p. fragment_payload = Some p \<and>
     map (\<lambda>e. (name e, kind e))
       (filter (\<lambda>e. starts_with_ci ''Trigger'' (name e)) (entries_of p)) =
       [(''Trigger'', ''enum''), (''TriggerType'', ''enum''), (''TriggerMetadata'', ''struct'')] \<and>
     map (\<lambda>e. (name e, kind e)) (lookupPrefix prio (entries_of p) ''Trigger'') =
       [(''Trigger'', ''enum''), (''TriggerType'', ''enum''), (''TriggerMetadata'', ''struct'')] \<and>
     map (\<lambda>e. (name e, kind e)) (lookupPrefix prio (rev (entries_of p)) ''Trigger'') =
       [(''Trigger'', ''enum''), (''TriggerType'', ''enum''), (''TriggerMetadata'', ''struct'')] \<and>
     map (\<lambda>e. (name e, kind e)) (lookupPrefix kind_priority (entries_of p) ''Trigger'') =
       [(''Trigger'', ''enum''), (''TriggerType'', ''enum''), (''TriggerMetadata'', ''struct'')]"
proof (intro exI conjI)
  note ev = sidebar_payload_def entries_of_def lookupPrefix_def starts_with_ci_def
    lower_def lower_char_def sort_ranked_def rank_le_def Let_def
  show "fragment_payload = Some sidebar_payload"
    by (fact fragment_payload_eq)
  show "map (\<lambda>e. (name e, kind e))
       (filter (\<lambda>e. starts_with_ci ''Trigger'' (name e)) (entries_of sidebar_payload)) =
       [(''Trigger'', ''enum''), (''TriggerType'', ''enum''), (''TriggerMetadata'', ''struct'')]"
    by (simp add: ev)
  show "map (\<lambda>e. (name e, kind e)) (lookupPrefix prio (entries_of sidebar_payload) ''Trigger'') =
       [(''Trigger'', ''enum''), (''TriggerType'', ''enum''), (''TriggerMetadata'', ''struct'')]"
    by (simp add: ev)
  show "map (\<lambda>e. (name e, kind e))
       (lookupPrefix prio (rev (entries_of sidebar_payload)) ''Trigger'') =
       [(''Trigger'', ''enum''), (''TriggerType'', ''enum''), (''TriggerMetadata'', ''struct'')]"
    by (simp add: ev)
  show "map (\<lambda>e. (name e, kind e))
       (lookupPrefix kind_priority (entries_of sidebar_payload) ''Trigger'') =
       [(''Trigger'', ''enum''), (''TriggerType'', ''enum''), (''TriggerMetadata'', ''struct'')]"
    by (simp add: ev)
qed

text \<open>
  C4, as stated, fails: trait is a declared kind with no members in the module, and
  the fragment's payload has no bucket for it, not even an empty one.
\<close>

theorem C4_trait_bucket_absent:
  "''trait'' \<in> set declared_kinds \<and>
   fragment_payload = Some sidebar_payload \<and>
   map_of sidebar_payload ''trait'' = None"
  by code_simp

text \<open>
  C4, amended. The payload has a bucket exactly for the kinds enum and struct, every
  bucket present has at least one item, and the other declared kinds (trait,
  function, macro, type-alias, constant) have no key in it.
\<close>

theorem C4_buckets_only_for_inhabited_kinds:
  "\<exists>p. fragment_payload = Some p \<and>
     dom (map_of p) = {''enum'', ''struct''} \<and>
     list_all (\<lambda>(k, items). items \<noteq> []) p \<and>
     filter (\<lambda>k. map_of p k = None) declared_kinds =
       [''trait'', ''function'', ''macro'', ''type-alias'', ''constant'']"
proof (intro exI conjI)
  show "fragment_payload = Some sidebar_payload"
    by (fact fragment_payload_eq)
  show "dom (map_of sidebar_payload) = {''enum'', ''struct''}"
    by (simp add: dom_map_of_conv_image_fst sidebar_payload_def)
  show "list_all (\<lambda>(k, items). items \<noteq> []) sidebar_payload"
    by code_simp
  show "filter (\<lambda>k. map_of sidebar_payload k = None) declared_kinds =
       [''trait'', ''function'', ''macro'', ''type-alias'', ''constant'']"
    by code_simp
qed

text \<open>
  C5. Within each kind bucket of the fragment's payload no item name occurs more than
  once.
\<close>

theorem C5_names_unique_in_bucket:
  "\<exists>p. fragment_payload = Some p \<and>
       list_all (\<lambda>(k, items). distinct (map fst items)) p"
proof (intro exI conjI)
  show "fragment_payload = Some sidebar_payload"
    by (fact fragment_payload_eq)
  show "list_all (\<lambda>(k, items). distinct (map fst items)) sidebar_payload"
    by code_simp
qed

text \<open>
  C6. Every summary in every bucket of the fragment is a single line: it contains
  neither a line feed nor a carriage return.
\<close>

theorem C6_summaries_single_line:
  "\<exists>p. fragment_payload = Some p \<and>
       list_all (\<lambda>(k, items). list_all (\<lambda>(n, s). single_line s) items) p"
proof (intro exI conjI)
  show "fragment_payload = Some sidebar_payload"
    by (fact fragment_payload_eq)
  show "list_all (\<lambda>(k, items). list_all (\<lambda>(n, s). single_line s) items) sidebar_payload"
    by code_simp
qed

text \<open>
  C7. In the enum bucket Action precedes Trigger, and in the struct bucket Rule
  precedes TriggerMetadata: the buckets \<open>[Action, Trigger]\<close> and
  \<open>[Rule, TriggerMetadata]\<close> of the example are subsequences of the fragment's.
\<close>

theorem C7_example_order:
  "\<exists>p es ss. fragment_payload = Some p \<and>
     bucket_names p ''enum'' = Some es \<and>
     precedes ''Action'' ''Trigger'' es \<and>
     subseq [''Action'', ''Trigger''] es \<and>
     bucket_names p ''struct'' = Some ss \<and>
     precedes ''Rule'' ''TriggerMetadata'' ss \<and>
     subseq [''Rule'', ''TriggerMetadata''] ss"
proof (intro exI conjI)
  show "fragment_payload = Some sidebar_payload"
    by (fact fragment_payload_eq)
  show "bucket_names sidebar_payload ''enum'' =
      Some [''Action'', ''ActionType'', ''EventType'', ''KeywordPresetType'',
            ''Trigger'', ''TriggerType'']"
    by (fact bucket_names_enum)
  show "bucket_names sidebar_payload ''struct'' =
      Some [''ActionExecution'', ''Rule'', ''TriggerMetadata'']"
    by (fact bucket_names_struct)
qed simp_all

text \<open>
  C8. The fragment has nine item names over all its buckets, and they are pairwise
  distinct even when compared case-insensitively.
\<close>

theorem C8_names_distinct_ignoring_case:
  "\<exists>p. fragment_payload = Some p \<and>
       length (all_names p) = 9 \<and> distinct (map lower (all_names p))"
proof (intro exI conjI)
  show "fragment_payload = Some sidebar_payload"
    by (fact fragment_payload_eq)
  show "length (all_names sidebar_payload) = 9"
    by code_simp
  show "distinct (map lower (all_names sidebar_payload))"
    by code_simp
qed

text \<open>
  C9. Every summary in the fragment is a non-empty string.
\<close>

theorem C9_summaries_nonempty:
  "\<exists>p. fragment_payload = Some p \<and>
       list_all (\<lambda>(k, items). list_all (\<lambda>(n, s). s \<noteq> []) items) p"
proof (intro exI conjI)
  show "fragment_payload = Some sidebar_payload"
    by (fact fragment_payload_eq)
  show "list_all (\<lambda>(k, items). list_all (\<lambda>(n, s). s \<noteq> []) items) sidebar_payload"
    by code_simp
qed

text \<open>
  C10. The kind keys of the fragment's payload are \<^verbatim>\<open>enum\<close>, then \<^verbatim>\<open>struct\<close>: they
  appear in ascending case-sensitive lexical order.
\<close>

theorem C10_keys_ascending:
  "\<exists>p. fragment_payload = Some p \<and>
       map fst p = [''enum'', ''struct''] \<and> sorted_wrt string_less (map fst p)"
proof (intro exI conjI)
  show "fragment_payload = Some sidebar_payload"
    by (fact fragment_payload_eq)
  show "map fst sidebar_payload = [''enum'', ''struct'']"
    by code_simp
  show "sorted_wrt string_less (map fst sidebar_payload)"
    by code_simp
qed

end
